theory Spec2Isabelle
  imports Complex_Main
begin

section \<open>Device fingerprints and referral points (models/User.js)\<close>

subsection \<open>JavaScript values\<close>

text \<open>
  The values a fingerprint property can hold after JSON parsing or schema casting:
  a missing property reads as \<open>undefined\<close>; the others are the JSON scalars. A number
  is the exact value of a finite double (JSON carries neither NaN nor an infinity, and
  the two zeros have the same value and are \<open>===\<close>).
\<close>

datatype jsval = JUndefined | JNull | JBool bool | JNum rat | JStr string

text \<open>The truthiness test of \<open>&&\<close> and \<open>if\<close>.\<close>

fun truthy :: "jsval \<Rightarrow> bool" where
  "truthy JUndefined = False"
| "truthy JNull = False"
| "truthy (JBool b) = b"
| "truthy (JNum n) = (n \<noteq> 0)"
| "truthy (JStr s) = (s \<noteq> [])"

text \<open>\<open>===\<close> on these values: same type and same value.\<close>

definition strictEq :: "jsval \<Rightarrow> jsval \<Rightarrow> bool" where
  "strictEq a b = (a = b)"

subsection \<open>The data model\<close>

text \<open>The \<open>fingerprint\<close> object of the user schema, every property that the schema lists.\<close>

record fingerprint =
  visitorId :: jsval
  confidence :: jsval
  components :: "string list"
  cookieEnabled :: jsval
  doNotTrack :: jsval
  hardwareConcurrency :: jsval
  language :: jsval
  maxTouchPoints :: jsval
  platform :: jsval
  screenResolution :: jsval
  timestamp :: jsval
  timezone :: jsval
  userAgent :: jsval
  vendor :: jsval

text \<open>
  Property access by name, \<open>fingerprint1[field]\<close>, for the scalar properties; a name
  that is no property reads as \<open>undefined\<close>. (\<open>components\<close>, an array, is never read
  by name.)
\<close>

definition getField :: "string \<Rightarrow> fingerprint \<Rightarrow> jsval" where
  "getField name fp =
     (if name = ''platform'' then platform fp
      else if name = ''vendor'' then vendor fp
      else if name = ''userAgent'' then userAgent fp
      else if name = ''screenResolution'' then screenResolution fp
      else if name = ''hardwareConcurrency'' then hardwareConcurrency fp
      else if name = ''maxTouchPoints'' then maxTouchPoints fp
      else if name = ''timezone'' then timezone fp
      else if name = ''language'' then language fp
      else if name = ''visitorId'' then visitorId fp
      else if name = ''confidence'' then confidence fp
      else if name = ''cookieEnabled'' then cookieEnabled fp
      else if name = ''doNotTrack'' then doNotTrack fp
      else if name = ''timestamp'' then timestamp fp
      else JUndefined)"

text \<open>
  A user document: \<open>_id\<close> (an ObjectId, compared through its string form, which is
  injective), the referral code, the points counter and the fingerprint
  (\<open>None\<close> when \<open>user.fingerprint\<close> is falsy).
\<close>

type_synonym objectId = nat

record user =
  uid :: objectId
  myReferralCode :: string
  points :: int
  fingerprint :: "fingerprint option"

text \<open>The collection, in the order in which \<open>find\<close> iterates it.\<close>

type_synonym store = "user list"

subsection \<open>isSameDevice\<close>

definition criticalFields :: "string list" where
  "criticalFields =
     [''platform'', ''vendor'', ''userAgent'', ''screenResolution'',
      ''hardwareConcurrency'', ''maxTouchPoints'']"

text \<open>
  The body of \<open>criticalFields.forEach\<close>: the pair is \<open>(matchCount, totalChecks)\<close>.
\<close>

fun compareFields ::
  "string list \<Rightarrow> fingerprint \<Rightarrow> fingerprint \<Rightarrow> nat \<times> nat \<Rightarrow> nat \<times> nat" where
  "compareFields [] fingerprint1 fingerprint2 (matchCount, totalChecks) =
     (matchCount, totalChecks)"
| "compareFields (field # rest) fingerprint1 fingerprint2 (matchCount, totalChecks) =
     (if truthy (getField field fingerprint1) \<and> truthy (getField field fingerprint2)
      then compareFields rest fingerprint1 fingerprint2
             (if strictEq (getField field fingerprint1) (getField field fingerprint2)
              then matchCount + 1 else matchCount,
              totalChecks + 1)
      else compareFields rest fingerprint1 fingerprint2 (matchCount, totalChecks))"

text \<open>The two checks written out after the loop: timezone, then language.\<close>

definition checkTimezone :: "fingerprint \<Rightarrow> fingerprint \<Rightarrow> nat \<times> nat \<Rightarrow> nat \<times> nat" where
  "checkTimezone fingerprint1 fingerprint2 c =
     (case c of (matchCount, totalChecks) \<Rightarrow>
        if truthy (timezone fingerprint1) \<and> truthy (timezone fingerprint2)
        then (if strictEq (timezone fingerprint1) (timezone fingerprint2)
              then matchCount + 1 else matchCount,
              totalChecks + 1)
        else (matchCount, totalChecks))"

definition checkLanguage :: "fingerprint \<Rightarrow> fingerprint \<Rightarrow> nat \<times> nat \<Rightarrow> nat \<times> nat" where
  "checkLanguage fingerprint1 fingerprint2 c =
     (case c of (matchCount, totalChecks) \<Rightarrow>
        if truthy (language fingerprint1) \<and> truthy (language fingerprint2)
        then (if strictEq (language fingerprint1) (language fingerprint2)
              then matchCount + 1 else matchCount,
              totalChecks + 1)
        else (matchCount, totalChecks))"

text \<open>The counters \<open>(matchCount, totalChecks)\<close> when the score is computed.\<close>

definition deviceCounters :: "fingerprint \<Rightarrow> fingerprint \<Rightarrow> nat \<times> nat" where
  "deviceCounters fingerprint1 fingerprint2 =
     checkLanguage fingerprint1 fingerprint2
       (checkTimezone fingerprint1 fingerprint2
          (compareFields criticalFields fingerprint1 fingerprint2 (0, 0)))"

text \<open>
  \<open>totalChecks > 0 ? matchCount / totalChecks : 0\<close>. The quotient is taken exactly;
  JavaScript rounds it to the nearest double.
\<close>

definition similarityScore :: "nat \<times> nat \<Rightarrow> rat" where
  "similarityScore c =
     (case c of (matchCount, totalChecks) \<Rightarrow>
        if totalChecks > 0 then of_nat matchCount / of_nat totalChecks else 0)"

text \<open>\<open>None\<close> is a falsy argument (\<open>null\<close>, \<open>undefined\<close>).\<close>

definition isSameDevice :: "fingerprint option \<Rightarrow> fingerprint option \<Rightarrow> rat \<Rightarrow> bool" where
  "isSameDevice fingerprint1 fingerprint2 threshold =
     (case fingerprint1 of
        None \<Rightarrow> False
      | Some f1 \<Rightarrow>
          (case fingerprint2 of
             None \<Rightarrow> False
           | Some f2 \<Rightarrow> similarityScore (deviceCounters f1 f2) \<ge> threshold))"

subsection \<open>findMatchingFingerprint\<close>

text \<open>
  The query \<open>{ 'fingerprint.visitorId': { $exists: true } }\<close>: the document has the
  property, whatever its value (\<open>null\<close> and the empty string included).
\<close>

definition visitorIdExists :: "user \<Rightarrow> bool" where
  "visitorIdExists u =
     (case fingerprint u of None \<Rightarrow> False | Some f \<Rightarrow> visitorId f \<noteq> JUndefined)"

text \<open>The \<open>for (const user of allUsers)\<close> loop.\<close>

fun firstSameDevice :: "user list \<Rightarrow> fingerprint option \<Rightarrow> rat \<Rightarrow> user option" where
  "firstSameDevice [] fingerprintData threshold = None"
| "firstSameDevice (u # allUsers) fingerprintData threshold =
     (if fingerprint u \<noteq> None \<and> isSameDevice (fingerprint u) fingerprintData threshold
      then Some u
      else firstSameDevice allUsers fingerprintData threshold)"

definition findMatchingFingerprint :: "store \<Rightarrow> fingerprint option \<Rightarrow> rat \<Rightarrow> user option" where
  "findMatchingFingerprint st fingerprintData threshold =
     firstSameDevice (filter visitorIdExists st) fingerprintData threshold"

subsection \<open>The referral points transaction\<close>

definition findByReferralCode :: "store \<Rightarrow> string \<Rightarrow> user option" where
  "findByReferralCode st referralCode = find (\<lambda>u. myReferralCode u = referralCode) st"

definition findById :: "store \<Rightarrow> objectId \<Rightarrow> user option" where
  "findById st i = find (\<lambda>u. uid u = i) st"

text \<open>
  \<open>addPoints\<close>: \<open>this.points += points; return this.save()\<close>. The save writes the
  modified path \<open>points\<close> of the document with this \<open>_id\<close>; the result is the
  updated document object and the updated collection.
\<close>

definition addPoints :: "user \<Rightarrow> int \<Rightarrow> store \<Rightarrow> user \<times> store" where
  "addPoints this n st =
     (let this' = this\<lparr>points := points this + n\<rparr>
      in (this', map (\<lambda>u. if uid u = uid this' then u\<lparr>points := points this'\<rparr> else u) st))"

datatype error =
    InvalidReferralCode
  | NewUserNotFound
  | FraudSameDevice
  | FraudMultipleAccounts

record awardResult =
  referrer :: user
  newUser :: user
  referrerPointsAwarded :: int
  newUserPointsAwarded :: int
  fraudCheckPassed :: bool

text \<open>
  The two conditions that throw inside \<open>if (newUserFingerprint)\<close>. The literal
  \<open>0.7\<close> is taken as 7/10: with at most eight checks no quotient lies between 7/10
  and the double nearest to it, so the comparison decides the same.
\<close>

definition selfReferralFraud :: "user \<Rightarrow> fingerprint option \<Rightarrow> bool" where
  "selfReferralFraud referrerDoc newUserFingerprint =
     (newUserFingerprint \<noteq> None \<and> fingerprint referrerDoc \<noteq> None \<and>
      isSameDevice (fingerprint referrerDoc) newUserFingerprint (7 / 10))"

definition multiAccountFraud :: "store \<Rightarrow> objectId \<Rightarrow> fingerprint option \<Rightarrow> bool" where
  "multiAccountFraud st newUserId newUserFingerprint =
     (newUserFingerprint \<noteq> None \<and>
      (case findMatchingFingerprint st newUserFingerprint (7 / 10) of
         None \<Rightarrow> False
       | Some existing \<Rightarrow> uid existing \<noteq> newUserId))"

text \<open>
  \<open>awardReferralPoints\<close>: the result or the error thrown, and the collection afterwards.
\<close>

definition awardReferralPoints ::
  "store \<Rightarrow> string \<Rightarrow> objectId \<Rightarrow> fingerprint option \<Rightarrow> (error + awardResult) \<times> store" where
  "awardReferralPoints st referralCode newUserId newUserFingerprint =
     (case findByReferralCode st referralCode of
        None \<Rightarrow> (Inl InvalidReferralCode, st)
      | Some referrerDoc \<Rightarrow>
          (case findById st newUserId of
             None \<Rightarrow> (Inl NewUserNotFound, st)
           | Some newUserDoc \<Rightarrow>
               if selfReferralFraud referrerDoc newUserFingerprint
               then (Inl FraudSameDevice, st)
               else if multiAccountFraud st newUserId newUserFingerprint
               then (Inl FraudMultipleAccounts, st)
               else (case addPoints referrerDoc 100 st of
                       (referrerDoc', st') \<Rightarrow>
                         (Inr \<lparr>referrer = referrerDoc', newUser = newUserDoc,
                               referrerPointsAwarded = 100, newUserPointsAwarded = 0,
                               fraudCheckPassed = True\<rparr>,
                          st'))))"

subsection \<open>Vocabulary of the properties\<close>

text \<open>The eight names that \<open>isSameDevice\<close> reads, in the order in which it reads them.\<close>

definition comparedFields :: "string list" where
  "comparedFields = criticalFields @ [''timezone'', ''language'']"

text \<open>A field is compared when both records hold a truthy value for it.\<close>

definition bothPresent :: "fingerprint \<Rightarrow> fingerprint \<Rightarrow> string \<Rightarrow> bool" where
  "bothPresent f1 f2 field = (truthy (getField field f1) \<and> truthy (getField field f2))"

definition fieldMatches :: "fingerprint \<Rightarrow> fingerprint \<Rightarrow> string \<Rightarrow> bool" where
  "fieldMatches f1 f2 field = (bothPresent f1 f2 field \<and> getField field f1 = getField field f2)"

text \<open>
  Presence as the specification words it: non-null and non-empty, so that a number is
  present whatever its value.
\<close>

definition presentInSpec :: "jsval \<Rightarrow> bool" where
  "presentInSpec v = (v \<noteq> JUndefined \<and> v \<noteq> JNull \<and> v \<noteq> JStr [])"

text \<open>Two records agree on the eight compared properties.\<close>

definition sameCriticalFields :: "fingerprint \<Rightarrow> fingerprint \<Rightarrow> bool" where
  "sameCriticalFields f g =
     (platform f = platform g \<and> vendor f = vendor g \<and> userAgent f = userAgent g \<and>
      screenResolution f = screenResolution g \<and>
      hardwareConcurrency f = hardwareConcurrency g \<and> maxTouchPoints f = maxTouchPoints g \<and>
      timezone f = timezone g \<and> language f = language g)"

text \<open>An account that the scan reads and that the evaluator accepts.\<close>

definition scannedMatch :: "fingerprint option \<Rightarrow> rat \<Rightarrow> user \<Rightarrow> bool" where
  "scannedMatch fingerprintData threshold u =
     (visitorIdExists u \<and> isSameDevice (fingerprint u) fingerprintData threshold)"

text \<open>
  The scan set as the specification words it: a fingerprint with a non-empty
  \<open>visitorId\<close>.
\<close>

definition nonEmptyVisitorId :: "user \<Rightarrow> bool" where
  "nonEmptyVisitorId u =
     (case fingerprint u of None \<Rightarrow> False | Some f \<Rightarrow> presentInSpec (visitorId f))"

text \<open>The points counter of the account with a given \<open>_id\<close>.\<close>

definition pointsOf :: "store \<Rightarrow> objectId \<Rightarrow> int option" where
  "pointsOf st i = map_option points (findById st i)"

subsection \<open>Sample data\<close>

text \<open>The object \<open>{}\<close>.\<close>

definition emptyFingerprint :: fingerprint where
  "emptyFingerprint =
     \<lparr>visitorId = JUndefined, confidence = JUndefined, components = [],
      cookieEnabled = JUndefined, doNotTrack = JUndefined, hardwareConcurrency = JUndefined,
      language = JUndefined, maxTouchPoints = JUndefined, platform = JUndefined,
      screenResolution = JUndefined, timestamp = JUndefined, timezone = JUndefined,
      userAgent = JUndefined, vendor = JUndefined\<rparr>"

text \<open>The two fingerprints of the end-to-end scenario.\<close>

definition referrerFingerprint :: fingerprint where
  "referrerFingerprint =
     emptyFingerprint\<lparr>platform := JStr ''Win32'', vendor := JStr ''Google Inc.'',
       userAgent := JStr ''UA-X'', screenResolution := JStr ''1920x1080'',
       hardwareConcurrency := JNum 8, maxTouchPoints := JNum 0,
       timezone := JStr ''Africa/Accra'', language := JStr ''en-US''\<rparr>"

definition otherDeviceFingerprint :: fingerprint where
  "otherDeviceFingerprint =
     referrerFingerprint\<lparr>platform := JStr ''MacIntel'', vendor := JStr ''Apple Inc.'',
       userAgent := JStr ''UA-Y'', screenResolution := JStr ''2560x1600'',
       hardwareConcurrency := JNum 16\<rparr>"

text \<open>
  The collection of the scenario: the referrer, then the account just registered with
  fingerprint \<open>f\<close>. \<open>v\<close> is the referrer's \<open>visitorId\<close>.
\<close>

definition referrerAccount :: "jsval \<Rightarrow> user" where
  "referrerAccount v =
     \<lparr>uid = 1, myReferralCode = ''REFERRER'', points = 0,
      fingerprint = Some (referrerFingerprint\<lparr>visitorId := v\<rparr>)\<rparr>"

definition newAccount :: "fingerprint \<Rightarrow> user" where
  "newAccount f = \<lparr>uid = 2, myReferralCode = ''NEWUSER1'', points = 0, fingerprint = Some f\<rparr>"

definition scenarioStore :: "jsval \<Rightarrow> fingerprint \<Rightarrow> store" where
  "scenarioStore v f = [referrerAccount v, newAccount f]"

section \<open>Properties\<close>

subsection \<open>The counters of isSameDevice\<close>

lemma compareFields_counts:
  "compareFields fs f1 f2 (m, t) =
     (m + length (filter (fieldMatches f1 f2) fs), t + length (filter (bothPresent f1 f2) fs))"
  by (induction fs arbitrary: m t) (simp_all add: bothPresent_def fieldMatches_def strictEq_def)

lemma compareFields_append:
  "compareFields (fs @ gs) f1 f2 c = compareFields gs f1 f2 (compareFields fs f1 f2 c)"
  by (cases c) (simp add: compareFields_counts)

lemma getField_timezone: "getField ''timezone'' fp = timezone fp"
  by (simp add: getField_def)

lemma getField_language: "getField ''language'' fp = language fp"
  by (simp add: getField_def)

lemma checkTimezone_compareFields:
  "checkTimezone f1 f2 c = compareFields [''timezone''] f1 f2 c"
  by (cases c) (simp add: checkTimezone_def getField_timezone)

lemma checkLanguage_compareFields:
  "checkLanguage f1 f2 c = compareFields [''language''] f1 f2 c"
  by (cases c) (simp add: checkLanguage_def getField_language)

lemma deviceCounters_compareFields:
  "deviceCounters f1 f2 = compareFields comparedFields f1 f2 (0, 0)"
proof -
  have split: "criticalFields @ [''timezone'', ''language''] =
      (criticalFields @ [''timezone'']) @ [''language'']"
    by simp
  show ?thesis
    unfolding deviceCounters_def comparedFields_def split compareFields_append
      checkTimezone_compareFields checkLanguage_compareFields ..
qed

lemma deviceCounters_counts:
  "deviceCounters f1 f2 =
     (length (filter (fieldMatches f1 f2) comparedFields),
      length (filter (bothPresent f1 f2) comparedFields))"
  by (simp add: deviceCounters_compareFields compareFields_counts)

lemma comparedFields_names:
  "comparedFields =
     [''platform'', ''vendor'', ''userAgent'', ''screenResolution'',
      ''hardwareConcurrency'', ''maxTouchPoints'', ''timezone'', ''language'']"
  by (simp add: comparedFields_def criticalFields_def)

lemma noComparable_counters:
  "(\<forall>field\<in>set comparedFields. \<not> bothPresent f1 f2 field) \<Longrightarrow>
     deviceCounters f1 f2 = (0, 0)"
  by (simp add: deviceCounters_counts fieldMatches_def)

lemma identical_counts:
  assumes "\<forall>field\<in>set comparedFields. getField field f1 = getField field f2"
  shows "filter (fieldMatches f1 f2) comparedFields = filter (bothPresent f1 f2) comparedFields"
  using assms by (intro filter_cong) (auto simp: fieldMatches_def)

lemma sameCriticalFields_getField:
  "sameCriticalFields f g \<Longrightarrow> field \<in> set comparedFields \<Longrightarrow>
     getField field f = getField field g"
  by (auto simp: sameCriticalFields_def comparedFields_names getField_def)

lemmas counter_eval = deviceCounters_def criticalFields_def checkTimezone_def checkLanguage_def
  getField_def strictEq_def emptyFingerprint_def referrerFingerprint_def
  otherDeviceFingerprint_def

subsection \<open>Which fields are counted\<close>

text \<open>
  Claim C2, as stated, at a numeric field that holds 0 in both records: the
  specification counts the field as present in both, so one comparison and one match are
  expected; the code makes no comparison at all.
\<close>

theorem zero_valued_field_not_counted:
  "length (filter (\<lambda>field.
       presentInSpec (getField field (emptyFingerprint\<lparr>hardwareConcurrency := JNum 0\<rparr>)))
     comparedFields) = 1
   \<and> deviceCounters (emptyFingerprint\<lparr>hardwareConcurrency := JNum 0\<rparr>)
       (emptyFingerprint\<lparr>hardwareConcurrency := JNum 0\<rparr>) = (0, 0)"
  by (simp add: comparedFields_def presentInSpec_def counter_eval)

text \<open>
  Claim C2, amended: for every pair of records, each of the eight fields platform,
  vendor, userAgent, screenResolution, hardwareConcurrency, maxTouchPoints, timezone and
  language adds one to the comparisons exactly when its value is truthy in both records
  (a non-empty string, a non-zero number), and adds one to the matches exactly when it
  is moreover strictly equal in both; a field that is missing, null, empty or 0 in
  either record adds to neither counter.
\<close>

theorem deviceCounters_per_field:
  "deviceCounters f1 f2 =
     (length (filter (\<lambda>field. truthy (getField field f1) \<and> truthy (getField field f2) \<and>
                         getField field f1 = getField field f2)
        [''platform'', ''vendor'', ''userAgent'', ''screenResolution'',
         ''hardwareConcurrency'', ''maxTouchPoints'', ''timezone'', ''language'']),
      length (filter (\<lambda>field. truthy (getField field f1) \<and> truthy (getField field f2))
        [''platform'', ''vendor'', ''userAgent'', ''screenResolution'',
         ''hardwareConcurrency'', ''maxTouchPoints'', ''timezone'', ''language'']))
   \<and> truthy (JNum n) = (n \<noteq> 0) \<and> truthy (JStr s) = (s \<noteq> [])
   \<and> \<not> truthy JNull \<and> \<not> truthy JUndefined"
proof -
  have "fieldMatches f1 f2 = (\<lambda>field. truthy (getField field f1) \<and>
      truthy (getField field f2) \<and> getField field f1 = getField field f2)"
    by (simp add: fun_eq_iff fieldMatches_def bothPresent_def)
  moreover have "bothPresent f1 f2 =
      (\<lambda>field. truthy (getField field f1) \<and> truthy (getField field f2))"
    by (simp add: fun_eq_iff bothPresent_def)
  ultimately show ?thesis
    using deviceCounters_counts [of f1 f2] by (simp add: comparedFields_names)
qed

subsection \<open>No comparable field\<close>

text \<open>
  Claim C3, as stated, at two empty records and threshold 0: no field is comparable,
  the score is 0, and \<open>0 >= 0\<close> holds, so the verdict is true.
\<close>

theorem noComparable_threshold_zero_same:
  "isSameDevice (Some emptyFingerprint) (Some emptyFingerprint) 0"
  by (simp add: isSameDevice_def similarityScore_def counter_eval)

text \<open>
  Claim C3, amended: for every pair of records with no field of the eight truthy in
  both, the verdict of isSameDevice is false for every threshold above 0, and true for
  a threshold of 0 or below.
\<close>

theorem noComparable_verdict:
  assumes "\<forall>field\<in>set comparedFields. \<not> bothPresent f1 f2 field"
  shows "isSameDevice (Some f1) (Some f2) threshold = (threshold \<le> 0)"
  using noComparable_counters [OF assms] by (simp add: isSameDevice_def similarityScore_def)

theorem noComparable_verdict_witness:
  "list_all (\<lambda>field.
      \<not> bothPresent (emptyFingerprint\<lparr>platform := JStr ''Win32''\<rparr>)
          (emptyFingerprint\<lparr>vendor := JStr ''Apple Inc.''\<rparr>) field) comparedFields
   \<and> \<not> isSameDevice (Some (emptyFingerprint\<lparr>platform := JStr ''Win32''\<rparr>))
         (Some (emptyFingerprint\<lparr>vendor := JStr ''Apple Inc.''\<rparr>)) (7 / 10)"
proof -
  have h: "\<forall>field\<in>set comparedFields.
      \<not> bothPresent (emptyFingerprint\<lparr>platform := JStr ''Win32''\<rparr>)
          (emptyFingerprint\<lparr>vendor := JStr ''Apple Inc.''\<rparr>) field"
    by (simp add: comparedFields_names bothPresent_def getField_def emptyFingerprint_def)
  show ?thesis
    using h noComparable_verdict [OF h, of "7 / 10"] by (simp add: list_all_iff)
qed

subsection \<open>Identical records\<close>

text \<open>
  Claim C8, as stated, at two empty records, which agree on all eight fields, and
  threshold 0.7: nothing is compared, the score is 0 and the verdict is false.
\<close>

theorem identical_empty_not_same:
  "\<not> isSameDevice (Some emptyFingerprint) (Some emptyFingerprint) (7 / 10)"
  by (simp add: isSameDevice_def similarityScore_def counter_eval)

text \<open>
  Claim C8, amended: for every pair of records that agree on all eight critical fields
  and hold a truthy value for at least one of them, and for every threshold of at most
  1, isSameDevice returns true.
\<close>

theorem identical_present_same:
  assumes same: "\<forall>field\<in>set comparedFields. getField field f1 = getField field f2"
    and some: "\<exists>field\<in>set comparedFields. truthy (getField field f1)"
    and th: "threshold \<le> 1"
  shows "isSameDevice (Some f1) (Some f2) threshold"
proof -
  from some obtain field where fld: "field \<in> set comparedFields" "truthy (getField field f1)"
    by blast
  with same have "bothPresent f1 f2 field"
    by (simp add: bothPresent_def)
  with fld have "filter (bothPresent f1 f2) comparedFields \<noteq> []"
    by (auto simp: filter_empty_conv)
  then have pos: "0 < length (filter (bothPresent f1 f2) comparedFields)"
    by simp
  show ?thesis
    using pos th
    by (simp add: isSameDevice_def similarityScore_def deviceCounters_counts
        identical_counts [OF same])
qed

theorem identical_present_same_witness:
  "list_all (\<lambda>field.
      getField field referrerFingerprint =
      getField field (referrerFingerprint\<lparr>visitorId := JStr ''58d047a0''\<rparr>)) comparedFields
   \<and> list_ex (\<lambda>field. truthy (getField field referrerFingerprint)) comparedFields
   \<and> isSameDevice (Some referrerFingerprint)
       (Some (referrerFingerprint\<lparr>visitorId := JStr ''58d047a0''\<rparr>)) 1"
proof -
  have some: "\<exists>field\<in>set comparedFields. truthy (getField field referrerFingerprint)"
    by (simp add: comparedFields_names getField_def referrerFingerprint_def)
  have same: "\<forall>field\<in>set comparedFields.
      getField field referrerFingerprint =
      getField field (referrerFingerprint\<lparr>visitorId := JStr ''58d047a0''\<rparr>)"
    by (simp add: comparedFields_names getField_def)
  show ?thesis
    using same some identical_present_same [OF same some, of 1]
    by (simp add: list_all_iff list_ex_iff)
qed

subsection \<open>The verdict reads the eight fields only\<close>

text \<open>
  Claim C9: the verdict of isSameDevice depends on the eight critical fields only. Two
  pairs of records that agree, first with first and second with second, on platform,
  vendor, userAgent, screenResolution, hardwareConcurrency, maxTouchPoints, timezone and
  language get the same verdict at every threshold, whatever their visitorId,
  confidence, components, cookieEnabled, doNotTrack and timestamp.
\<close>

theorem isSameDevice_critical_fields_only:
  assumes "sameCriticalFields f1 g1" and "sameCriticalFields f2 g2"
  shows "isSameDevice (Some f1) (Some f2) threshold =
         isSameDevice (Some g1) (Some g2) threshold"
proof -
  have eq: "getField field f1 = getField field g1 \<and> getField field f2 = getField field g2"
    if "field \<in> set comparedFields" for field
    using that assms by (simp add: sameCriticalFields_getField)
  have "filter (fieldMatches f1 f2) comparedFields =
        filter (fieldMatches g1 g2) comparedFields"
    by (rule filter_cong) (simp_all add: fieldMatches_def bothPresent_def eq)
  moreover have "filter (bothPresent f1 f2) comparedFields =
        filter (bothPresent g1 g2) comparedFields"
    by (rule filter_cong) (simp_all add: bothPresent_def eq)
  ultimately show ?thesis
    by (simp add: isSameDevice_def deviceCounters_counts)
qed

theorem isSameDevice_critical_fields_only_witness:
  "sameCriticalFields referrerFingerprint
     (referrerFingerprint\<lparr>visitorId := JStr ''58d047a0'', confidence := JNum (3 / 5),
        components := [''fonts'', ''canvas''], cookieEnabled := JBool True,
        doNotTrack := JNull, timestamp := JStr ''2025-07-03T10:31:48.379Z''\<rparr>)
   \<and> sameCriticalFields otherDeviceFingerprint
        (otherDeviceFingerprint\<lparr>visitorId := JStr ''updated-visitor-id-456''\<rparr>)
   \<and> isSameDevice (Some referrerFingerprint) (Some otherDeviceFingerprint) (1 / 4) =
     isSameDevice
       (Some (referrerFingerprint\<lparr>visitorId := JStr ''58d047a0'', confidence := JNum (3 / 5),
          components := [''fonts'', ''canvas''], cookieEnabled := JBool True,
          doNotTrack := JNull, timestamp := JStr ''2025-07-03T10:31:48.379Z''\<rparr>))
       (Some (otherDeviceFingerprint\<lparr>visitorId := JStr ''updated-visitor-id-456''\<rparr>))
       (1 / 4)"
proof -
  have a: "sameCriticalFields referrerFingerprint
     (referrerFingerprint\<lparr>visitorId := JStr ''58d047a0'', confidence := JNum (3 / 5),
        components := [''fonts'', ''canvas''], cookieEnabled := JBool True,
        doNotTrack := JNull, timestamp := JStr ''2025-07-03T10:31:48.379Z''\<rparr>)"
    by (simp add: sameCriticalFields_def)
  have b: "sameCriticalFields otherDeviceFingerprint
        (otherDeviceFingerprint\<lparr>visitorId := JStr ''updated-visitor-id-456''\<rparr>)"
    by (simp add: sameCriticalFields_def)
  show ?thesis
    using a b isSameDevice_critical_fields_only [OF a b, of "1 / 4"] by simp
qed

subsection \<open>The scan of findMatchingFingerprint\<close>

lemma isSameDevice_None: "\<not> isSameDevice None fingerprintData threshold"
  by (simp add: isSameDevice_def)

lemma firstSameDevice_find:
  "firstSameDevice (filter visitorIdExists st) fingerprintData threshold =
     find (scannedMatch fingerprintData threshold) st"
proof (induction st)
  case Nil
  show ?case by simp
next
  case (Cons u st)
  show ?case
  proof (cases "fingerprint u")
    case None
    then show ?thesis
      using Cons by (simp add: scannedMatch_def visitorIdExists_def)
  next
    case (Some f)
    then show ?thesis
      using Cons by (simp add: scannedMatch_def)
  qed
qed

text \<open>
  Claim C5, as stated, at a collection whose only account has the empty string as
  \<open>visitorId\<close>: the account is outside the set that the claim scans, yet the query
  \<open>$exists: true\<close> selects it and it is returned.
\<close>

theorem emptyVisitorId_account_returned:
  "\<not> nonEmptyVisitorId
        \<lparr>uid = 1, myReferralCode = ''REFERRER'', points = 0,
         fingerprint = Some (emptyFingerprint\<lparr>visitorId := JStr [], platform := JStr ''Win32''\<rparr>)\<rparr>
   \<and> findMatchingFingerprint
        [\<lparr>uid = 1, myReferralCode = ''REFERRER'', points = 0,
          fingerprint = Some (emptyFingerprint\<lparr>visitorId := JStr [], platform := JStr ''Win32''\<rparr>)\<rparr>]
        (Some (emptyFingerprint\<lparr>platform := JStr ''Win32''\<rparr>)) (7 / 10) =
      Some \<lparr>uid = 1, myReferralCode = ''REFERRER'', points = 0,
            fingerprint = Some (emptyFingerprint\<lparr>visitorId := JStr [], platform := JStr ''Win32''\<rparr>)\<rparr>"
  by (simp add: nonEmptyVisitorId_def presentInSpec_def findMatchingFingerprint_def
      visitorIdExists_def isSameDevice_def similarityScore_def counter_eval)

text \<open>
  Claim C5, amended: for every candidate fingerprint and threshold,
  findMatchingFingerprint scans exactly the accounts whose fingerprint has a
  \<open>visitorId\<close> property (whatever its value, the empty string and null included),
  returns the first account in store iteration order whose stored fingerprint satisfies
  isSameDevice(stored, candidate, threshold), and returns none when the store is empty
  or no scanned account matches.
\<close>

theorem findMatchingFingerprint_first_scanned_match:
  "findMatchingFingerprint st fingerprintData threshold =
     find (\<lambda>u. visitorIdExists u \<and> isSameDevice (fingerprint u) fingerprintData threshold) st
   \<and> findMatchingFingerprint [] fingerprintData threshold = None
   \<and> (findMatchingFingerprint st fingerprintData threshold = None) =
       (\<not> list_ex (\<lambda>u. visitorIdExists u \<and>
                         isSameDevice (fingerprint u) fingerprintData threshold) st)"
proof -
  have "scannedMatch fingerprintData threshold =
      (\<lambda>u. visitorIdExists u \<and> isSameDevice (fingerprint u) fingerprintData threshold)"
    by (simp add: fun_eq_iff scannedMatch_def)
  then show ?thesis
    using firstSameDevice_find [of st fingerprintData threshold]
    by (auto simp: findMatchingFingerprint_def find_None_iff list_ex_iff)
qed

subsection \<open>Lookups and the points update\<close>

lemma find_Some_mem: "find P xs = Some x \<Longrightarrow> x \<in> set xs \<and> P x"
  by (induction xs) (auto split: if_splits)

lemma find_mem_not_None: "x \<in> set xs \<Longrightarrow> P x \<Longrightarrow> find P xs \<noteq> None"
  by (auto simp: find_None_iff)

lemma find_uid_map:
  assumes "\<And>u. uid (g u) = uid u"
  shows "find (\<lambda>u. uid u = i) (map g st) = map_option g (find (\<lambda>u. uid u = i) st)"
  by (induction st) (simp_all add: assms)

lemma findById_addPoints:
  "findById (snd (addPoints this n st)) i =
     map_option (\<lambda>u. if uid u = uid this then u\<lparr>points := points this + n\<rparr> else u)
       (findById st i)"
  by (simp add: findById_def addPoints_def Let_def find_uid_map cong: if_cong)

lemma pointsOf_addPoints_self:
  assumes "this \<in> set st"
  shows "pointsOf (snd (addPoints this n st)) (uid this) = Some (points this + n)"
proof -
  from assms have "findById st (uid this) \<noteq> None"
    unfolding findById_def by (intro find_mem_not_None [of this]) simp_all
  then obtain d where d: "findById st (uid this) = Some d"
    by blast
  then have "uid d = uid this"
    by (auto simp: findById_def dest: find_Some_mem)
  with d show ?thesis
    by (simp add: pointsOf_def findById_addPoints)
qed

lemma findById_addPoints_other:
  assumes "findById st i = Some n" and "uid this \<noteq> i"
  shows "findById (snd (addPoints this k st)) i = Some n"
proof -
  from assms(1) have "uid n = i"
    by (auto simp: findById_def dest: find_Some_mem)
  with assms show ?thesis
    by (simp add: findById_addPoints)
qed

lemma awardReferralPoints_success:
  assumes "findByReferralCode st referralCode = Some r"
    and "findById st newUserId = Some n"
    and "\<not> selfReferralFraud r newUserFingerprint"
    and "\<not> multiAccountFraud st newUserId newUserFingerprint"
  shows "awardReferralPoints st referralCode newUserId newUserFingerprint =
     (Inr \<lparr>referrer = r\<lparr>points := points r + 100\<rparr>, newUser = n,
           referrerPointsAwarded = 100, newUserPointsAwarded = 0, fraudCheckPassed = True\<rparr>,
      snd (addPoints r 100 st))"
  using assms by (simp add: awardReferralPoints_def addPoints_def Let_def)

lemma findByReferralCode_mem: "findByReferralCode st referralCode = Some r \<Longrightarrow> r \<in> set st"
  by (auto simp: findByReferralCode_def dest: find_Some_mem)

lemmas award_eval = awardReferralPoints_def scenarioStore_def findByReferralCode_def
  findById_def referrerAccount_def newAccount_def selfReferralFraud_def multiAccountFraud_def
  isSameDevice_def findMatchingFingerprint_def visitorIdExists_def similarityScore_def
  addPoints_def pointsOf_def Let_def

lemma scenario_counters:
  "deviceCounters (referrerFingerprint\<lparr>visitorId := v\<rparr>)
     (otherDeviceFingerprint\<lparr>visitorId := w\<rparr>) = (2, 7)"
  by (simp add: counter_eval)

lemma sameFingerprint_counters:
  "deviceCounters (referrerFingerprint\<lparr>visitorId := v\<rparr>)
     (referrerFingerprint\<lparr>visitorId := w\<rparr>) = (7, 7)"
  by (simp add: counter_eval)

lemma otherDevice_counters:
  "deviceCounters (otherDeviceFingerprint\<lparr>visitorId := v\<rparr>)
     (otherDeviceFingerprint\<lparr>visitorId := w\<rparr>) = (7, 7)"
  by (simp add: counter_eval)

subsection \<open>Self-referral\<close>

text \<open>
  Claim C1: for every referrer account with a stored fingerprint and every new-user
  fingerprint that isSameDevice accepts against it at threshold 0.7,
  awardReferralPoints called with the referrer's referral code and the id of the new
  user's account fails with the self-referral fraud error, and the collection, the
  referrer's points counter in it, is as before the call.
\<close>

theorem selfReferral_rejected_points_unchanged:
  assumes "findByReferralCode st referralCode = Some r"
    and "findById st newUserId = Some n"
    and "fingerprint r = Some f"
    and "isSameDevice (Some f) (Some g) (7 / 10)"
  shows "awardReferralPoints st referralCode newUserId (Some g) = (Inl FraudSameDevice, st)
    \<and> pointsOf (snd (awardReferralPoints st referralCode newUserId (Some g))) (uid r) =
      pointsOf st (uid r)"
  using assms by (simp add: awardReferralPoints_def selfReferralFraud_def)

theorem selfReferral_rejected_witness:
  "findByReferralCode (scenarioStore JUndefined referrerFingerprint) ''REFERRER'' =
     Some (referrerAccount JUndefined)
   \<and> findById (scenarioStore JUndefined referrerFingerprint) 2 =
     Some (newAccount referrerFingerprint)
   \<and> fingerprint (referrerAccount JUndefined) =
     Some (referrerFingerprint\<lparr>visitorId := JUndefined\<rparr>)
   \<and> isSameDevice (Some (referrerFingerprint\<lparr>visitorId := JUndefined\<rparr>))
       (Some referrerFingerprint) (7 / 10)
   \<and> awardReferralPoints (scenarioStore JUndefined referrerFingerprint) ''REFERRER'' 2
       (Some referrerFingerprint) =
     (Inl FraudSameDevice, scenarioStore JUndefined referrerFingerprint)
   \<and> pointsOf (scenarioStore JUndefined referrerFingerprint) 1 = Some 0"
proof -
  have h1: "findByReferralCode (scenarioStore JUndefined referrerFingerprint) ''REFERRER'' =
      Some (referrerAccount JUndefined)"
    by (simp add: scenarioStore_def findByReferralCode_def referrerAccount_def)
  have h2: "findById (scenarioStore JUndefined referrerFingerprint) 2 =
      Some (newAccount referrerFingerprint)"
    by (simp add: scenarioStore_def findById_def referrerAccount_def newAccount_def)
  have h3: "fingerprint (referrerAccount JUndefined) =
      Some (referrerFingerprint\<lparr>visitorId := JUndefined\<rparr>)"
    by (simp add: referrerAccount_def)
  have h4: "isSameDevice (Some (referrerFingerprint\<lparr>visitorId := JUndefined\<rparr>))
      (Some referrerFingerprint) (7 / 10)"
    using sameFingerprint_counters [of JUndefined "visitorId referrerFingerprint"]
    by (simp add: isSameDevice_def similarityScore_def)
  have h5: "pointsOf (scenarioStore JUndefined referrerFingerprint) 1 = Some 0"
    by (simp add: pointsOf_def scenarioStore_def findById_def referrerAccount_def)
  show ?thesis
    using h1 h2 h3 h4 h5 selfReferral_rejected_points_unchanged [OF h1 h2 h3 h4] by simp
qed

subsection \<open>The end-to-end scenario\<close>

text \<open>
  Claim C4, as stated: the score of the scenario is not 3/8. maxTouchPoints is 0 in both
  records and is not compared, so seven fields are compared and two of them, timezone
  and language, match.
\<close>

theorem scenario_score_not_three_eighths:
  "deviceCounters referrerFingerprint otherDeviceFingerprint = (2, 7)
   \<and> similarityScore (deviceCounters referrerFingerprint otherDeviceFingerprint) \<noteq> 3 / 8"
proof -
  have "deviceCounters referrerFingerprint otherDeviceFingerprint = (2, 7)"
    by (simp add: counter_eval)
  then show ?thesis
    by (simp add: similarityScore_def)
qed

text \<open>
  Claim C4, amended: in the end-to-end scenario (the referrer's stored fingerprint as
  listed, the new user's fingerprint different in platform, vendor, userAgent,
  screenResolution and hardwareConcurrency, the rest the same, whatever the two
  visitorIds) the similarity score is 2/7, which is below 0.7, so awardReferralPoints
  succeeds and the referrer's points become 100.
\<close>

theorem scenario_other_device_awarded:
  "similarityScore (deviceCounters (referrerFingerprint\<lparr>visitorId := v\<rparr>)
       (otherDeviceFingerprint\<lparr>visitorId := w\<rparr>)) = 2 / 7
   \<and> (2 / 7 :: rat) < 7 / 10
   \<and> awardReferralPoints (scenarioStore v (otherDeviceFingerprint\<lparr>visitorId := w\<rparr>))
       ''REFERRER'' 2 (Some (otherDeviceFingerprint\<lparr>visitorId := w\<rparr>)) =
     (Inr \<lparr>referrer = (referrerAccount v)\<lparr>points := 100\<rparr>,
           newUser = newAccount (otherDeviceFingerprint\<lparr>visitorId := w\<rparr>),
           referrerPointsAwarded = 100, newUserPointsAwarded = 0, fraudCheckPassed = True\<rparr>,
      [(referrerAccount v)\<lparr>points := 100\<rparr>,
       newAccount (otherDeviceFingerprint\<lparr>visitorId := w\<rparr>)])
   \<and> pointsOf (snd (awardReferralPoints
         (scenarioStore v (otherDeviceFingerprint\<lparr>visitorId := w\<rparr>))
         ''REFERRER'' 2 (Some (otherDeviceFingerprint\<lparr>visitorId := w\<rparr>)))) 1 = Some 100"
  by (simp add: award_eval scenario_counters otherDevice_counters)

subsection \<open>A referral that passes\<close>

text \<open>
  Claim C6, as stated, at a call whose new user is the owner of the referral code
  (one account, no fingerprint): the call succeeds and the new user's points, the
  referrer's, go from 0 to 100.
\<close>

theorem ownCode_newUser_points_change:
  "pointsOf [\<lparr>uid = 1, myReferralCode = ''REFERRER'', points = 0, fingerprint = None\<rparr>] 1 =
     Some 0
   \<and> pointsOf (snd (awardReferralPoints
        [\<lparr>uid = 1, myReferralCode = ''REFERRER'', points = 0, fingerprint = None\<rparr>]
        ''REFERRER'' 1 None)) 1 = Some 100
   \<and> map_sum id newUserPointsAwarded (fst (awardReferralPoints
        [\<lparr>uid = 1, myReferralCode = ''REFERRER'', points = 0, fingerprint = None\<rparr>]
        ''REFERRER'' 1 None)) = Inr 0"
  by (simp add: award_eval)

text \<open>
  Claim C6, amended: for every valid referral code and existing new user whose account
  is not the referrer's, when the fraud checks pass, awardReferralPoints increments the
  referrer's points by exactly 100, leaves the new user's account, its points with it,
  as it was (at 0 for an account just registered), and returns a result reporting
  referrerPointsAwarded = 100 and newUserPointsAwarded = 0.
\<close>

theorem award_success_points:
  assumes ref: "findByReferralCode st referralCode = Some r"
    and nu: "findById st newUserId = Some n"
    and self: "\<not> selfReferralFraud r newUserFingerprint"
    and multi: "\<not> multiAccountFraud st newUserId newUserFingerprint"
    and other: "uid r \<noteq> newUserId"
  shows "fst (awardReferralPoints st referralCode newUserId newUserFingerprint) =
       Inr \<lparr>referrer = r\<lparr>points := points r + 100\<rparr>, newUser = n,
            referrerPointsAwarded = 100, newUserPointsAwarded = 0, fraudCheckPassed = True\<rparr>
    \<and> pointsOf (snd (awardReferralPoints st referralCode newUserId newUserFingerprint)) (uid r) =
       Some (points r + 100)
    \<and> findById (snd (awardReferralPoints st referralCode newUserId newUserFingerprint))
         newUserId = Some n"
  using awardReferralPoints_success [OF ref nu self multi]
    pointsOf_addPoints_self [OF findByReferralCode_mem [OF ref], of 100]
    findById_addPoints_other [OF nu other, of 100]
  by simp

theorem award_success_points_witness:
  "findByReferralCode (scenarioStore JUndefined otherDeviceFingerprint) ''REFERRER'' =
     Some (referrerAccount JUndefined)
   \<and> findById (scenarioStore JUndefined otherDeviceFingerprint) 2 =
     Some (newAccount otherDeviceFingerprint)
   \<and> \<not> selfReferralFraud (referrerAccount JUndefined) (Some otherDeviceFingerprint)
   \<and> \<not> multiAccountFraud (scenarioStore JUndefined otherDeviceFingerprint) 2
         (Some otherDeviceFingerprint)
   \<and> uid (referrerAccount JUndefined) \<noteq> 2
   \<and> pointsOf (snd (awardReferralPoints (scenarioStore JUndefined otherDeviceFingerprint)
        ''REFERRER'' 2 (Some otherDeviceFingerprint))) 1 = Some 100
   \<and> pointsOf (snd (awardReferralPoints (scenarioStore JUndefined otherDeviceFingerprint)
        ''REFERRER'' 2 (Some otherDeviceFingerprint))) 2 = Some 0"
proof -
  have h1: "findByReferralCode (scenarioStore JUndefined otherDeviceFingerprint) ''REFERRER'' =
      Some (referrerAccount JUndefined)"
    by (simp add: scenarioStore_def findByReferralCode_def referrerAccount_def)
  have h2: "findById (scenarioStore JUndefined otherDeviceFingerprint) 2 =
      Some (newAccount otherDeviceFingerprint)"
    by (simp add: scenarioStore_def findById_def referrerAccount_def newAccount_def)
  have h3: "\<not> selfReferralFraud (referrerAccount JUndefined) (Some otherDeviceFingerprint)"
    using scenario_counters [of JUndefined "visitorId otherDeviceFingerprint"]
    by (simp add: selfReferralFraud_def referrerAccount_def isSameDevice_def
        similarityScore_def)
  have h4: "\<not> multiAccountFraud (scenarioStore JUndefined otherDeviceFingerprint) 2
      (Some otherDeviceFingerprint)"
    by (simp add: multiAccountFraud_def findMatchingFingerprint_def scenarioStore_def
        visitorIdExists_def referrerAccount_def newAccount_def otherDeviceFingerprint_def
        referrerFingerprint_def emptyFingerprint_def)
  have h5: "uid (referrerAccount JUndefined) \<noteq> 2"
    by (simp add: referrerAccount_def)
  have p0: "points (referrerAccount JUndefined) = 0" "uid (referrerAccount JUndefined) = 1"
    "points (newAccount otherDeviceFingerprint) = 0"
    by (simp_all add: referrerAccount_def newAccount_def)
  show ?thesis
    using h1 h2 h3 h4 h5 award_success_points [OF h1 h2 h3 h4 h5]
    by (simp add: p0 pointsOf_def)
qed

subsection \<open>No fingerprint\<close>

text \<open>
  Claim C7: when the new user's fingerprint is absent, neither the self-referral check
  nor the multi-account check is made, and awardReferralPoints with a valid referral
  code, an existing new user and no fingerprint succeeds and adds 100 to the referrer's
  points.
\<close>

theorem noFingerprint_award_succeeds:
  assumes ref: "findByReferralCode st referralCode = Some r"
    and nu: "findById st newUserId = Some n"
  shows "\<not> selfReferralFraud r None \<and> \<not> multiAccountFraud st newUserId None
    \<and> fst (awardReferralPoints st referralCode newUserId None) =
       Inr \<lparr>referrer = r\<lparr>points := points r + 100\<rparr>, newUser = n,
            referrerPointsAwarded = 100, newUserPointsAwarded = 0, fraudCheckPassed = True\<rparr>
    \<and> pointsOf (snd (awardReferralPoints st referralCode newUserId None)) (uid r) =
       Some (points r + 100)"
proof -
  have self: "\<not> selfReferralFraud r None"
    by (simp add: selfReferralFraud_def)
  have multi: "\<not> multiAccountFraud st newUserId None"
    by (simp add: multiAccountFraud_def)
  show ?thesis
    using self multi awardReferralPoints_success [OF ref nu self multi]
      pointsOf_addPoints_self [OF findByReferralCode_mem [OF ref], of 100]
    by simp
qed

theorem noFingerprint_award_succeeds_witness:
  "findByReferralCode (scenarioStore (JStr ''58d047a0'') referrerFingerprint) ''REFERRER'' =
     Some (referrerAccount (JStr ''58d047a0''))
   \<and> findById (scenarioStore (JStr ''58d047a0'') referrerFingerprint) 2 =
     Some (newAccount referrerFingerprint)
   \<and> pointsOf (snd (awardReferralPoints (scenarioStore (JStr ''58d047a0'') referrerFingerprint)
        ''REFERRER'' 2 None)) 1 = Some 100"
proof -
  have h1: "findByReferralCode (scenarioStore (JStr ''58d047a0'') referrerFingerprint)
      ''REFERRER'' = Some (referrerAccount (JStr ''58d047a0''))"
    by (simp add: scenarioStore_def findByReferralCode_def referrerAccount_def)
  have h2: "findById (scenarioStore (JStr ''58d047a0'') referrerFingerprint) 2 =
      Some (newAccount referrerFingerprint)"
    by (simp add: scenarioStore_def findById_def referrerAccount_def newAccount_def)
  have p0: "points (referrerAccount (JStr ''58d047a0'')) = 0"
    "uid (referrerAccount (JStr ''58d047a0'')) = 1"
    by (simp_all add: referrerAccount_def)
  show ?thesis
    using h1 h2 noFingerprint_award_succeeds [OF h1 h2] by (simp add: p0)
qed

subsection \<open>Errors leave the collection alone\<close>

text \<open>
  Claim C10: on every error path of awardReferralPoints (the referral code resolves to
  no account, the new user's id resolves to no account, self-referral fraud,
  multi-account fraud) the collection after the call is the collection before it: the
  error is thrown before any points are written.
\<close>

theorem award_error_store_unchanged:
  assumes "fst (awardReferralPoints st referralCode newUserId newUserFingerprint) = Inl e"
  shows "snd (awardReferralPoints st referralCode newUserId newUserFingerprint) = st"
  using assms
  by (auto simp: awardReferralPoints_def split: option.splits if_splits prod.splits)

theorem award_error_store_unchanged_witness:
  "awardReferralPoints (scenarioStore JUndefined otherDeviceFingerprint) ''NOSUCH00'' 2
      (Some otherDeviceFingerprint) =
     (Inl InvalidReferralCode, scenarioStore JUndefined otherDeviceFingerprint)
   \<and> awardReferralPoints (scenarioStore JUndefined otherDeviceFingerprint) ''REFERRER'' 3
      (Some otherDeviceFingerprint) =
     (Inl NewUserNotFound, scenarioStore JUndefined otherDeviceFingerprint)
   \<and> awardReferralPoints (scenarioStore JUndefined referrerFingerprint) ''REFERRER'' 2
      (Some referrerFingerprint) =
     (Inl FraudSameDevice, scenarioStore JUndefined referrerFingerprint)
   \<and> awardReferralPoints
      (scenarioStore JUndefined (otherDeviceFingerprint\<lparr>visitorId := JStr ''58d047a0''\<rparr>) @
       [\<lparr>uid = 3, myReferralCode = ''THIRDACC'', points = 0,
         fingerprint = Some (otherDeviceFingerprint\<lparr>visitorId := JStr ''58d047a0''\<rparr>)\<rparr>])
      ''REFERRER'' 3 (Some (otherDeviceFingerprint\<lparr>visitorId := JStr ''58d047a0''\<rparr>)) =
     (Inl FraudMultipleAccounts,
      scenarioStore JUndefined (otherDeviceFingerprint\<lparr>visitorId := JStr ''58d047a0''\<rparr>) @
       [\<lparr>uid = 3, myReferralCode = ''THIRDACC'', points = 0,
         fingerprint = Some (otherDeviceFingerprint\<lparr>visitorId := JStr ''58d047a0''\<rparr>)\<rparr>])"
proof -
  have e1: "fst (awardReferralPoints (scenarioStore JUndefined otherDeviceFingerprint)
      ''NOSUCH00'' 2 (Some otherDeviceFingerprint)) = Inl InvalidReferralCode"
    by (simp add: awardReferralPoints_def scenarioStore_def findByReferralCode_def
        referrerAccount_def newAccount_def)
  have e2: "fst (awardReferralPoints (scenarioStore JUndefined otherDeviceFingerprint)
      ''REFERRER'' 3 (Some otherDeviceFingerprint)) = Inl NewUserNotFound"
    by (simp add: awardReferralPoints_def scenarioStore_def findByReferralCode_def
        findById_def referrerAccount_def newAccount_def)
  have e3: "fst (awardReferralPoints (scenarioStore JUndefined referrerFingerprint)
      ''REFERRER'' 2 (Some referrerFingerprint)) = Inl FraudSameDevice"
    using sameFingerprint_counters [of JUndefined "visitorId referrerFingerprint"]
    by (simp add: award_eval)
  have e4: "fst (awardReferralPoints
      (scenarioStore JUndefined (otherDeviceFingerprint\<lparr>visitorId := JStr ''58d047a0''\<rparr>) @
       [\<lparr>uid = 3, myReferralCode = ''THIRDACC'', points = 0,
         fingerprint = Some (otherDeviceFingerprint\<lparr>visitorId := JStr ''58d047a0''\<rparr>)\<rparr>])
      ''REFERRER'' 3 (Some (otherDeviceFingerprint\<lparr>visitorId := JStr ''58d047a0''\<rparr>))) =
      Inl FraudMultipleAccounts"
    by (simp add: award_eval scenario_counters otherDevice_counters)
  show ?thesis
    using e1 e2 e3 e4
      award_error_store_unchanged [OF e1] award_error_store_unchanged [OF e2]
      award_error_store_unchanged [OF e3] award_error_store_unchanged [OF e4]
    by (simp add: prod_eq_iff)
qed

end
